theory Spec2Isabelle
  imports Main "HOL-Library.Sublist"
begin

section \<open>JavaScript strings\<close>

text \<open>
  A JavaScript string is modelled as a \<^typ>\<open>string\<close>, the list of its code units.
  \<open>s.startsWith(t)\<close> is \<^const>\<open>prefix\<close> \<open>t s\<close>, a template literal
  \<open>`${a}${b}`\<close> is \<open>a @ b\<close>, and \<open>s.includes(t)\<close> is the search below, which
  tries \<open>t\<close> at every position of \<open>s\<close> from the left.
\<close>

definition startsWith :: "string \<Rightarrow> string \<Rightarrow> bool" where
  "startsWith s t = prefix t s"

fun includes_str :: "string \<Rightarrow> string \<Rightarrow> bool" where
  "includes_str [] t = (t = [])"
| "includes_str (c # s) t = (prefix t (c # s) \<or> includes_str s t)"

text \<open>A string is truthy when it is not empty; \<open>null\<close> and \<open>undefined\<close> are \<open>None\<close>.\<close>

fun truthy :: "string option \<Rightarrow> bool" where
  "truthy None = False"
| "truthy (Some s) = (s \<noteq> [])"

section \<open>Image upload widget\<close>

subsection \<open>Constants\<close>

definition ALLOWED_IMAGE_TYPES :: "string list" where
  "ALLOWED_IMAGE_TYPES =
     [''image/jpeg'', ''image/jpg'', ''image/png'', ''image/gif'', ''image/webp'']"

definition MAX_FILE_SIZE :: nat where
  "MAX_FILE_SIZE = 5 * 1024 * 1024"

subsection \<open>prepareImageUrl\<close>

text \<open>
  \<open>API_BASE_URL\<close> and \<open>getToken()\<close> are imported from modules outside the
  component; they are the first two parameters. The token is \<open>None\<close> when
  \<open>getToken()\<close> returns \<open>null\<close>, and \<open>if (token)\<close> holds for a token that is
  neither \<open>null\<close> nor the empty string.
\<close>

definition prepareImageUrl :: "string \<Rightarrow> string option \<Rightarrow> string \<Rightarrow> string" where
  "prepareImageUrl API_BASE_URL token imageUrl =
     (if startsWith imageUrl ''http://'' \<or> startsWith imageUrl ''https://'' then
        (if includes_str imageUrl API_BASE_URL then
           (let hasParams = includes_str imageUrl ''?'' in
            case token of
              Some t \<Rightarrow>
                if t \<noteq> [] then imageUrl @ (if hasParams then ''&'' else ''?'') @ ''auth_token='' @ t
                else imageUrl
            | None \<Rightarrow> imageUrl)
         else imageUrl)
      else
        (let baseUrl = API_BASE_URL;
             normalizedUrl =
               (if startsWith imageUrl ''/'' then baseUrl @ imageUrl
                else baseUrl @ ''/'' @ imageUrl)
         in case token of
              Some t \<Rightarrow> if t \<noteq> [] then normalizedUrl @ ''?auth_token='' @ t else normalizedUrl
            | None \<Rightarrow> normalizedUrl))"

subsection \<open>handleFileChange\<close>

text \<open>
  A \<open>File\<close> is the three properties the handler reads. What the handler does to
  the outside world is recorded as a trace: a notification or a call of the
  \<open>onUpload\<close> callback, in the order they happen.
\<close>

record js_file =
  file_name :: string
  file_size :: nat
  file_type :: string

datatype severity = Info | Success | Error

datatype upload_event = Notification string severity | OnUpload js_file

text \<open>The body of the \<open>forEach\<close> callback: two guarded early returns, then the upload.\<close>

definition processFile :: "js_file \<Rightarrow> upload_event" where
  "processFile f =
     (if file_size f > 5 * 1024 * 1024 then
        Notification (''File '' @ file_name f @ '' is too large. Maximum size is 5MB.'') Error
      else if \<not> startsWith (file_type f) ''image/'' then
        Notification (''File '' @ file_name f @ '' is not an image.'') Error
      else OnUpload f)"

text \<open>
  The state the handler touches: the trace so far and the value of the file input
  behind \<open>fileInputRef\<close> (\<open>None\<close> when \<open>fileInputRef.current\<close> is \<open>null\<close>).
  \<open>event.target.files\<close> is \<open>None\<close> when it is \<open>null\<close>.
\<close>

record upload_state =
  trace :: "upload_event list"
  inputValue :: "string option"

definition handleFileChange :: "js_file list option \<Rightarrow> upload_state \<Rightarrow> upload_state" where
  "handleFileChange files st =
     (case files of
        None \<Rightarrow> st
      | Some fs \<Rightarrow>
          if length fs > 0 then
            st\<lparr>trace := trace st @ map processFile fs,
               inputValue := (case inputValue st of None \<Rightarrow> None | Some _ \<Rightarrow> Some [])\<rparr>
          else st)"

text \<open>The two projections of a trace: the files handed to \<open>onUpload\<close>, and the notices shown.\<close>

fun uploaded :: "upload_event list \<Rightarrow> js_file list" where
  "uploaded [] = []"
| "uploaded (OnUpload f # es) = f # uploaded es"
| "uploaded (Notification m s # es) = uploaded es"

fun notices :: "upload_event list \<Rightarrow> (string \<times> severity) list" where
  "notices [] = []"
| "notices (OnUpload f # es) = notices es"
| "notices (Notification m s # es) = (m, s) # notices es"

text \<open>The claims' wording of a valid file, and the notice a rejected file gets.\<close>

definition validFile :: "js_file \<Rightarrow> bool" where
  "validFile f = (file_size f \<le> 5242880 \<and> prefix ''image/'' (file_type f))"

definition rejection :: "js_file \<Rightarrow> string \<times> severity" where
  "rejection f =
     (if file_size f > 5242880
      then (''File '' @ file_name f @ '' is too large. Maximum size is 5MB.'', Error)
      else (''File '' @ file_name f @ '' is not an image.'', Error))"

definition initialUpload :: upload_state where
  "initialUpload = \<lparr>trace = [], inputValue = Some ''C:/fakepath/a.png''\<rparr>"

section \<open>Category form\<close>

subsection \<open>Values\<close>

text \<open>
  Numbers are the integers the ids are; a JSON response carries no \<open>NaN\<close>. The
  envelope of a response is \<open>{status, message?, data?}\<close>; a category refers to its
  parent by an optional \<open>parentCategory\<close> of the same shape.
\<close>

datatype category =
  Category (cat_id: int) (cat_name: string) (cat_description: string)
    (parentCategory: "category option") (cat_status: string)
    (cat_createdBy: "string option") (cat_lastModifiedBy: "string option")
    (cat_createdAt: "string option") (cat_updatedAt: "string option")

record api_response =
  resp_status :: string
  resp_message :: "string option"
  resp_data :: "category option"

record category_summary =
  summary_id :: int
  summary_name :: string

text \<open>The form's \<open>parentCategoryId?: number | null\<close>.\<close>

datatype parent_field = Undefined | Null | Number int

record category_form_data =
  form_name :: string
  form_description :: string
  form_parentCategoryId :: parent_field

text \<open>\<open>x || d\<close> on an optional string: \<open>d\<close> when \<open>x\<close> is missing or empty.\<close>

fun orElse :: "string option \<Rightarrow> string \<Rightarrow> string" where
  "orElse None d = d"
| "orElse (Some s) d = (if s \<noteq> [] then s else d)"

subsection \<open>parseInt\<close>

text \<open>
  \<open>parseInt\<close> is JavaScript's own function, not code of the form. What it returns is
  \<open>NaN\<close>, an infinity, or an integer (a run of digits too long for a double is rounded
  by JavaScript before the form sees it); \<open>-0\<close> and \<open>0\<close> are one number, since
  neither \<open>!==\<close> nor a template literal tells them apart. The function itself is a
  parameter, named \<open>parseInt\<close>, of everything that calls it.
\<close>

datatype js_number = NaN | PosInfinity | NegInfinity | Finite int

subsection \<open>Component state and the load effect\<close>

text \<open>
  The route parameter \<open>id\<close> is \<open>None\<close> when the route has none.
  \<open>isEditMode = Boolean(id)\<close>.
\<close>

definition isEditMode :: "string option \<Rightarrow> bool" where
  "isEditMode routeId = truthy routeId"

record form_state =
  formValues :: category_form_data
  isActive :: bool
  createdBy :: string
  lastModifiedBy :: string
  createdAt :: string
  updatedAt :: string

definition defaultValues :: category_form_data where
  "defaultValues = \<lparr>form_name = [], form_description = [], form_parentCategoryId = Null\<rparr>"

definition initialForm :: form_state where
  "initialForm = \<lparr>formValues = defaultValues, isActive = True, createdBy = [],
                   lastModifiedBy = [], createdAt = [], updatedAt = []\<rparr>"

text \<open>\<open>category.parentCategory?.id || null\<close>: a missing parent and the number 0 are falsy.\<close>

definition parentIdOrNull :: "category \<Rightarrow> parent_field" where
  "parentIdOrNull category =
     (case parentCategory category of
        None \<Rightarrow> Null
      | Some parent \<Rightarrow> if cat_id parent \<noteq> 0 then Number (cat_id parent) else Null)"

text \<open>
  The callback given to \<open>fetchCategory(...).then\<close>; the response is \<open>None\<close> when
  the request hook resolves to \<open>undefined\<close>.
\<close>

definition onCategoryFetched :: "api_response option \<Rightarrow> form_state \<Rightarrow> form_state" where
  "onCategoryFetched response st =
     (case response of
        None \<Rightarrow> st
      | Some r \<Rightarrow>
          if resp_status r = ''SUCCESS'' then
            (case resp_data r of
               None \<Rightarrow> st
             | Some category \<Rightarrow>
                 st\<lparr>formValues := \<lparr>form_name = cat_name category,
                                    form_description = cat_description category,
                                    form_parentCategoryId = parentIdOrNull category\<rparr>,
                    isActive := (cat_status category = ''ACTIVE''),
                    createdBy := orElse (cat_createdBy category) [],
                    lastModifiedBy := orElse (cat_lastModifiedBy category) [],
                    createdAt := orElse (cat_createdAt category) [],
                    updatedAt := orElse (cat_updatedAt category) []\<rparr>)
          else st)"

text \<open>
  The effect run on mount. \<open>fetchCategory\<close> stands for the category service behind the
  request hook: the response it resolves to for the id it is asked for. The list that
  \<open>fetchCategories\<close> loads goes to the dropdown below, as its \<open>categories\<close>.
\<close>

definition loadEffect ::
    "(string \<Rightarrow> js_number) \<Rightarrow> (js_number \<Rightarrow> api_response option) \<Rightarrow> string option
       \<Rightarrow> form_state \<Rightarrow> form_state" where
  "loadEffect parseInt fetchCategory routeId st =
     (case routeId of
        None \<Rightarrow> st
      | Some i \<Rightarrow>
          if isEditMode routeId \<and> i \<noteq> [] then onCategoryFetched (fetchCategory (parseInt i)) st
          else st)"

text \<open>
  The candidates of the parent dropdown:
  \<open>categories?.filter(cat => !isEditMode || (cat.id !== parseInt(id || '0')))\<close>.
  An id, a finite number, is never equal to \<open>NaN\<close> or to an infinity.
\<close>

definition parentCandidates ::
    "(string \<Rightarrow> js_number) \<Rightarrow> string option \<Rightarrow> category_summary list option
       \<Rightarrow> category_summary list option" where
  "parentCandidates parseInt routeId categories =
     map_option
       (filter (\<lambda>cat. \<not> isEditMode routeId
                      \<or> Finite (summary_id cat) \<noteq> parseInt (orElse routeId ''0'')))
       categories"

subsection \<open>Validation schema\<close>

text \<open>
  The schema: \<open>name\<close> and \<open>description\<close> are \<open>string().required(message)\<close>, which
  the empty string fails; \<open>parentCategoryId\<close> is a nullable number with no test. The
  result lists the failing fields with their messages, in the order of the schema.
\<close>

definition schema :: "category_form_data \<Rightarrow> (string \<times> string) list" where
  "schema d =
     (if form_name d = [] then [(''name'', ''Category name is required'')] else [])
     @ (if form_description d = [] then [(''description'', ''Description is required'')] else [])"

subsection \<open>onSubmit\<close>

datatype json_value = JString string | JNumber int | JUndefined

type_synonym payload = "(string \<times> json_value) list"

text \<open>
  \<open>...(data.parentCategoryId !== null && {parentCategoryId: data.parentCategoryId})\<close>
  spreads nothing for \<open>null\<close> and the one key for every other value.
\<close>

definition parentSpread :: "parent_field \<Rightarrow> payload" where
  "parentSpread v =
     (case v of
        Null \<Rightarrow> []
      | Undefined \<Rightarrow> [(''parentCategoryId'', JUndefined)]
      | Number n \<Rightarrow> [(''parentCategoryId'', JNumber n)])"

definition formData :: "category_form_data \<Rightarrow> payload" where
  "formData d =
     [(''name'', JString (form_name d)), (''description'', JString (form_description d))]
     @ parentSpread (form_parentCategoryId d)"

definition requestData :: "bool \<Rightarrow> category_form_data \<Rightarrow> payload" where
  "requestData active d =
     formData d @ [(''status'', JString (if active then ''ACTIVE'' else ''INACTIVE''))]"

text \<open>
  The calls of the category service, what a call can come to, and the trace of what
  \<open>onSubmit\<close> does. The service is a parameter: the outcome of each call.
\<close>

datatype service_call = CreateCategory payload | UpdateCategory js_number payload

datatype thrown = ErrorInstance string | OtherValue

datatype service_outcome = Resolved "api_response option" | Rejected thrown

datatype form_event =
    ShowNotification string severity
  | ServiceCall service_call
  | Navigate string
  | ConsoleError thrown

definition submitCall ::
    "(string \<Rightarrow> js_number) \<Rightarrow> string option \<Rightarrow> bool \<Rightarrow> category_form_data \<Rightarrow> service_call" where
  "submitCall parseInt routeId active d =
     (case routeId of
        None \<Rightarrow> CreateCategory (requestData active d)
      | Some i \<Rightarrow>
          if isEditMode routeId \<and> i \<noteq> [] then UpdateCategory (parseInt i) (requestData active d)
          else CreateCategory (requestData active d))"

definition responseMessage :: "api_response option \<Rightarrow> string" where
  "responseMessage response =
     (case response of
        None \<Rightarrow> ''Unknown error''
      | Some r \<Rightarrow> orElse (resp_message r) ''Unknown error'')"

definition isSuccess :: "api_response option \<Rightarrow> bool" where
  "isSuccess response =
     (case response of None \<Rightarrow> False | Some r \<Rightarrow> resp_status r = ''SUCCESS'')"

definition onSubmit ::
    "(string \<Rightarrow> js_number) \<Rightarrow> (service_call \<Rightarrow> service_outcome) \<Rightarrow> string option \<Rightarrow> bool
       \<Rightarrow> category_form_data \<Rightarrow> form_event list" where
  "onSubmit parseInt service routeId active d =
     [ShowNotification ''Saving category...'' Info, ServiceCall (submitCall parseInt routeId active d)]
     @ (case service (submitCall parseInt routeId active d) of
          Resolved response \<Rightarrow>
            if isSuccess response then
              [ShowNotification
                 (if isEditMode routeId then ''Category updated successfully''
                  else ''Category created successfully'') Success,
               Navigate ''/categories'']
            else
              [ShowNotification
                 (''Failed to '' @ (if isEditMode routeId then ''update'' else ''create'')
                    @ '' category: '' @ responseMessage response) Error]
        | Rejected e \<Rightarrow>
            [ConsoleError e,
             ShowNotification
               (''Error: '' @ (case e of ErrorInstance m \<Rightarrow> m | OtherValue \<Rightarrow> ''Unknown error''))
               Error])"

text \<open>
  \<open>handleSubmit(onSubmit)\<close> of the form library, with the schema as its resolver: the
  values are validated first, and \<open>onSubmit\<close> runs only when no field fails; otherwise
  the errors are kept for the fields to show and nothing else happens.
\<close>

record submission =
  errors :: "(string \<times> string) list"
  events :: "form_event list"

definition handleSubmit ::
    "(string \<Rightarrow> js_number) \<Rightarrow> (service_call \<Rightarrow> service_outcome) \<Rightarrow> string option \<Rightarrow> bool
       \<Rightarrow> category_form_data \<Rightarrow> submission" where
  "handleSubmit parseInt service routeId active d =
     (let errs = schema d
      in if errs = [] then \<lparr>errors = [], events = onSubmit parseInt service routeId active d\<rparr>
         else \<lparr>errors = errs, events = []\<rparr>)"

text \<open>The calls of the service in a trace.\<close>

fun serviceCalls :: "form_event list \<Rightarrow> service_call list" where
  "serviceCalls [] = []"
| "serviceCalls (ServiceCall c # es) = c # serviceCalls es"
| "serviceCalls (e # es) = serviceCalls es"


fun payloadOf :: "service_call \<Rightarrow> payload" where
  "payloadOf (CreateCategory p) = p"
| "payloadOf (UpdateCategory n p) = p"

text \<open>The same category with another parent, to compare two loads.\<close>

definition withParent :: "category option \<Rightarrow> category \<Rightarrow> category" where
  "withParent p c =
     Category (cat_id c) (cat_name c) (cat_description c) p (cat_status c)
       (cat_createdBy c) (cat_lastModifiedBy c) (cat_createdAt c) (cat_updatedAt c)"

subsection \<open>Sample values\<close>

abbreviation shoesForm :: category_form_data where
  "shoesForm \<equiv>
     \<lparr>form_name = ''Shoes'', form_description = ''Footwear'', form_parentCategoryId = Number 2\<rparr>"


abbreviation topCategory :: "int \<Rightarrow> category" where
  "topCategory n \<equiv> Category n ''Apparel'' ''Clothing'' None ''ACTIVE'' None None None None"

abbreviation shoesCategory :: "int \<Rightarrow> category" where
  "shoesCategory n \<equiv>
     Category 5 ''Shoes'' ''Footwear'' (Some (topCategory n)) ''ACTIVE'' None None None None"

abbreviation succeeded :: "category \<Rightarrow> api_response" where
  "succeeded c \<equiv> \<lparr>resp_status = ''SUCCESS'', resp_message = None, resp_data = Some c\<rparr>"


text \<open>
  What \<open>parseInt\<close> gives on the two strings the examples hand to it, the route id
  \<open>"5"\<close> and the \<open>'0'\<close> of \<open>id || '0'\<close>: the numbers 5 and 0.
\<close>

abbreviation parsesFive :: "string \<Rightarrow> js_number" where
  "parsesFive \<equiv>
     (\<lambda>s. if s = ''5'' then Finite 5 else if s = ''0'' then Finite 0 else NaN)"

abbreviation threeCategories :: "category_summary list" where
  "threeCategories \<equiv>
     [\<lparr>summary_id = 2, summary_name = ''Apparel''\<rparr>,
      \<lparr>summary_id = 5, summary_name = ''Shoes''\<rparr>,
      \<lparr>summary_id = 7, summary_name = ''Hats''\<rparr>]"

section \<open>Properties of the image upload widget\<close>

lemma includes_iff: "includes_str s t \<longleftrightarrow> (\<exists>p q. s = p @ t @ q)"
proof (induction s)
  case Nil
  then show ?case by auto
next
  case (Cons c s)
  show ?case
  proof
    assume "includes_str (c # s) t"
    then consider "prefix t (c # s)" | "includes_str s t" by auto
    then show "\<exists>p q. c # s = p @ t @ q"
    proof cases
      case 1
      then obtain q where "c # s = t @ q" by (auto simp: prefix_def)
      then have "c # s = [] @ t @ q" by simp
      then show ?thesis by blast
    next
      case 2
      with Cons.IH obtain p q where "s = p @ t @ q" by blast
      then have "c # s = (c # p) @ t @ q" by simp
      then show ?thesis by blast
    qed
  next
    assume "\<exists>p q. c # s = p @ t @ q"
    then obtain p q where pq: "c # s = p @ t @ q" by blast
    show "includes_str (c # s) t"
    proof (cases p)
      case Nil
      with pq have "prefix t (c # s)" by (simp add: prefix_def)
      then show ?thesis by simp
    next
      case (Cons a p')
      with pq have "s = p' @ t @ q" by simp
      with Cons.IH have "includes_str s t" by blast
      then show ?thesis by simp
    qed
  qed
qed

lemma includes_char: "includes_str s [c] \<longleftrightarrow> c \<in> set s"
  by (induction s) auto

lemma processFile_valid: "validFile f \<Longrightarrow> processFile f = OnUpload f"
  by (simp add: processFile_def validFile_def startsWith_def)

lemma processFile_invalid:
  "\<not> validFile f \<Longrightarrow> processFile f = Notification (fst (rejection f)) (snd (rejection f))"
  by (auto simp: processFile_def validFile_def startsWith_def rejection_def)

lemma uploaded_append: "uploaded (es @ es') = uploaded es @ uploaded es'"
  by (induction es rule: uploaded.induct) simp_all

lemma notices_append: "notices (es @ es') = notices es @ notices es'"
  by (induction es rule: notices.induct) simp_all

lemma uploaded_processFile: "uploaded (map processFile fs) = filter validFile fs"
proof (induction fs)
  case Nil
  then show ?case by simp
next
  case (Cons f fs)
  then show ?case
    by (cases "validFile f") (simp_all add: processFile_valid processFile_invalid)
qed

lemma notices_processFile:
  "notices (map processFile fs) = map rejection (filter (\<lambda>f. \<not> validFile f) fs)"
proof (induction fs)
  case Nil
  then show ?case by simp
next
  case (Cons f fs)
  then show ?case
    by (cases "validFile f") (simp_all add: processFile_valid processFile_invalid)
qed

lemma handleFileChange_trace:
  "trace (handleFileChange (Some fs) st) = trace st @ map processFile fs"
  by (cases fs) (simp_all add: handleFileChange_def)


text \<open>
  C1. For every selection the handler processes, \<open>onUpload\<close> is called once for each
  file of at most 5,242,880 bytes whose type starts with \<open>image/\<close>, in the order of the
  selection, and for no other file; every other file gets an error notification instead,
  in its place in the order, and nothing else happens. A \<open>null\<close> selection changes nothing.
\<close>

theorem handleFileChange_uploads_valid_in_order:
  "trace (handleFileChange (Some fs) st) =
     trace st @ map (\<lambda>f. if validFile f then OnUpload f
                          else Notification (fst (rejection f)) (snd (rejection f))) fs
   \<and> uploaded (trace (handleFileChange (Some fs) st)) = uploaded (trace st) @ filter validFile fs
   \<and> notices (trace (handleFileChange (Some fs) st)) =
       notices (trace st) @ map rejection (filter (\<lambda>f. \<not> validFile f) fs)
   \<and> handleFileChange None st = st"
proof -
  have "map processFile fs =
          map (\<lambda>f. if validFile f then OnUpload f
                    else Notification (fst (rejection f)) (snd (rejection f))) fs"
    by (rule map_cong) (simp_all add: processFile_valid processFile_invalid)
  moreover have "handleFileChange None st = st"
    by (simp add: handleFileChange_def)
  ultimately show ?thesis
    by (simp add: handleFileChange_trace uploaded_append notices_append
        uploaded_processFile notices_processFile)
qed

theorem handleFileChange_uploads_valid_in_order_witness:
  "uploaded (trace (handleFileChange
     (Some [\<lparr>file_name = ''a.png'', file_size = 5242880, file_type = ''image/png''\<rparr>,
            \<lparr>file_name = ''b.png'', file_size = 5242881, file_type = ''image/png''\<rparr>,
            \<lparr>file_name = ''c.pdf'', file_size = 10, file_type = ''application/pdf''\<rparr>,
            \<lparr>file_name = ''d.gif'', file_size = 0, file_type = ''image/gif''\<rparr>])
     initialUpload)) =
     [\<lparr>file_name = ''a.png'', file_size = 5242880, file_type = ''image/png''\<rparr>,
      \<lparr>file_name = ''d.gif'', file_size = 0, file_type = ''image/gif''\<rparr>]
   \<and> notices (trace (handleFileChange
     (Some [\<lparr>file_name = ''a.png'', file_size = 5242880, file_type = ''image/png''\<rparr>,
            \<lparr>file_name = ''b.png'', file_size = 5242881, file_type = ''image/png''\<rparr>,
            \<lparr>file_name = ''c.pdf'', file_size = 10, file_type = ''application/pdf''\<rparr>,
            \<lparr>file_name = ''d.gif'', file_size = 0, file_type = ''image/gif''\<rparr>])
     initialUpload)) =
     [(''File b.png is too large. Maximum size is 5MB.'', Error),
      (''File c.pdf is not an image.'', Error)]"
  using handleFileChange_uploads_valid_in_order
    [of "[\<lparr>file_name = ''a.png'', file_size = 5242880, file_type = ''image/png''\<rparr>,
          \<lparr>file_name = ''b.png'', file_size = 5242881, file_type = ''image/png''\<rparr>,
          \<lparr>file_name = ''c.pdf'', file_size = 10, file_type = ''application/pdf''\<rparr>,
          \<lparr>file_name = ''d.gif'', file_size = 0, file_type = ''image/gif''\<rparr>]" initialUpload]
  by (simp add: validFile_def rejection_def initialUpload_def)

text \<open>
  C2, as the code has it. Within the size limit, a file of the selection is uploaded
  exactly when its type starts with \<open>image/\<close>; the five types of
  \<open>ALLOWED_IMAGE_TYPES\<close> all do, so each of them is uploaded, and so is every other
  \<open>image/...\<close> type: the handler never consults the list.
\<close>

theorem handleFileChange_type_check_is_prefix:
  assumes "file_size f \<le> 5242880" and "f \<in> set fs"
  shows "(f \<in> set (uploaded (trace (handleFileChange (Some fs) initialUpload)))
            \<longleftrightarrow> prefix ''image/'' (file_type f))
         \<and> (file_type f \<in> set ALLOWED_IMAGE_TYPES
            \<longrightarrow> f \<in> set (uploaded (trace (handleFileChange (Some fs) initialUpload))))"
proof -
  have up: "uploaded (trace (handleFileChange (Some fs) initialUpload)) = filter validFile fs"
    by (simp add: handleFileChange_trace uploaded_processFile initialUpload_def)
  have "file_type f \<in> set ALLOWED_IMAGE_TYPES \<Longrightarrow> prefix ''image/'' (file_type f)"
    by (auto simp: ALLOWED_IMAGE_TYPES_def)
  with assms up show ?thesis
    by (auto simp: validFile_def)
qed

theorem handleFileChange_type_check_is_prefix_witness:
  "\<lparr>file_name = ''a.jpg'', file_size = 2048, file_type = ''image/jpg''\<rparr>
     \<in> set (uploaded (trace (handleFileChange
          (Some [\<lparr>file_name = ''a.jpg'', file_size = 2048, file_type = ''image/jpg''\<rparr>])
          initialUpload)))"
  using handleFileChange_type_check_is_prefix
    [of "\<lparr>file_name = ''a.jpg'', file_size = 2048, file_type = ''image/jpg''\<rparr>"
        "[\<lparr>file_name = ''a.jpg'', file_size = 2048, file_type = ''image/jpg''\<rparr>]"]
  by (simp add: ALLOWED_IMAGE_TYPES_def)

text \<open>
  C2 as stated fails: a 1024-byte file of type \<open>image/bmp\<close>, which is not in
  \<open>ALLOWED_IMAGE_TYPES\<close>, is handed to \<open>onUpload\<close> and no notice is shown.
\<close>

theorem allowed_types_not_enforced_counterexample:
  "file_type \<lparr>file_name = ''a.bmp'', file_size = 1024, file_type = ''image/bmp''\<rparr>
     \<notin> set ALLOWED_IMAGE_TYPES
   \<and> trace (handleFileChange
        (Some [\<lparr>file_name = ''a.bmp'', file_size = 1024, file_type = ''image/bmp''\<rparr>])
        initialUpload) =
     [OnUpload \<lparr>file_name = ''a.bmp'', file_size = 1024, file_type = ''image/bmp''\<rparr>]"
  by (simp add: ALLOWED_IMAGE_TYPES_def handleFileChange_def initialUpload_def
      processFile_def startsWith_def)


text \<open>
  C3. With base URL \<open>https://api.x\<close> and stored token \<open>T\<close>, the relative path
  \<open>/img/a.png\<close> becomes \<open>https://api.x/img/a.png?auth_token=T\<close>, and the absolute
  foreign URL \<open>https://cdn.y/a.png\<close> is returned unchanged.
\<close>

theorem prepareImageUrl_examples:
  "prepareImageUrl ''https://api.x'' (Some ''T'') ''/img/a.png''
     = ''https://api.x/img/a.png?auth_token=T''
   \<and> prepareImageUrl ''https://api.x'' (Some ''T'') ''https://cdn.y/a.png''
     = ''https://cdn.y/a.png''"
  by (simp add: prepareImageUrl_def startsWith_def)

text \<open>
  C8. An absolute URL (one that starts with \<open>http://\<close> or \<open>https://\<close>) that has the
  base URL anywhere inside it gets the stored token appended as a query parameter,
  whenever the token is a non-empty string: with \<open>&\<close> when the URL already has a
  \<open>?\<close>, with \<open>?\<close> otherwise. Where in the URL the base stands plays no part.
\<close>

theorem prepareImageUrl_absolute_substring:
  assumes "startsWith u ''http://'' \<or> startsWith u ''https://''"
    and "u = p @ base @ q"
    and "t \<noteq> []"
  shows "prepareImageUrl base (Some t) u =
           u @ (if CHR ''?'' \<in> set u then ''&'' else ''?'') @ ''auth_token='' @ t"
proof -
  from assms(2) have "includes_str u base"
    by (auto simp: includes_iff)
  moreover have "includes_str u ''?'' \<longleftrightarrow> CHR ''?'' \<in> set u"
    by (simp add: includes_char)
  ultimately show ?thesis
    using assms(1,3) by (simp add: prepareImageUrl_def)
qed

theorem prepareImageUrl_absolute_substring_witness:
  "\<not> prefix ''https://api.x'' ''https://evil.z/i.png?src=https://api.x/img''
   \<and> prepareImageUrl ''https://api.x'' (Some ''T'') ''https://evil.z/i.png?src=https://api.x/img''
     = ''https://evil.z/i.png?src=https://api.x/img&auth_token=T''"
proof -
  have h1: "startsWith ''https://evil.z/i.png?src=https://api.x/img'' ''http://''
          \<or> startsWith ''https://evil.z/i.png?src=https://api.x/img'' ''https://''"
    by (simp add: startsWith_def)
  have h2: "''https://evil.z/i.png?src=https://api.x/img''
          = ''https://evil.z/i.png?src='' @ ''https://api.x'' @ ''/img''"
    by simp
  have h3: "''T'' \<noteq> []"
    by simp
  have foreign: "\<not> prefix ''https://api.x'' ''https://evil.z/i.png?src=https://api.x/img''"
    by simp
  from prepareImageUrl_absolute_substring [OF h1 h2 h3] foreign show ?thesis
    by simp
qed

text \<open>
  C9. A relative URL (one that starts with neither \<open>http://\<close> nor \<open>https://\<close>) that
  already has a \<open>?\<close> still gets \<open>?auth_token=\<close> and the token appended to the
  normalised URL whenever the token is a non-empty string, so the result has at least two
  \<open>?\<close> characters: one more than the base URL, the given URL and the token have together.
\<close>

theorem prepareImageUrl_relative_second_question_mark:
  assumes "\<not> startsWith u ''http://''" and "\<not> startsWith u ''https://''"
    and "CHR ''?'' \<in> set u"
    and "t \<noteq> []"
  shows "prepareImageUrl base (Some t) u =
           (if startsWith u ''/'' then base @ u else base @ ''/'' @ u) @ ''?auth_token='' @ t
         \<and> count_list (prepareImageUrl base (Some t) u) CHR ''?'' =
             count_list base CHR ''?'' + count_list u CHR ''?'' + 1 + count_list t CHR ''?''
         \<and> 2 \<le> count_list (prepareImageUrl base (Some t) u) CHR ''?''"
proof -
  have eq: "prepareImageUrl base (Some t) u =
           (if startsWith u ''/'' then base @ u else base @ ''/'' @ u) @ ''?auth_token='' @ t"
    using assms(1,2,4) by (simp add: prepareImageUrl_def Let_def)
  have cnt: "count_list (prepareImageUrl base (Some t) u) CHR ''?'' =
             count_list base CHR ''?'' + count_list u CHR ''?'' + 1 + count_list t CHR ''?''"
    unfolding eq by simp
  from assms(3) have "count_list u CHR ''?'' \<noteq> 0"
    by (simp add: count_list_0_iff)
  then have "2 \<le> count_list (prepareImageUrl base (Some t) u) CHR ''?''"
    unfolding cnt by arith
  with eq cnt show ?thesis by blast
qed

theorem prepareImageUrl_relative_second_question_mark_witness:
  "prepareImageUrl ''https://api.x'' (Some ''T'') ''/img/a.png?w=100''
     = ''https://api.x/img/a.png?w=100?auth_token=T''
   \<and> count_list (prepareImageUrl ''https://api.x'' (Some ''T'') ''/img/a.png?w=100'') CHR ''?'' = 2"
proof -
  have h1: "\<not> startsWith ''/img/a.png?w=100'' ''http://''"
    by (simp add: startsWith_def)
  have h2: "\<not> startsWith ''/img/a.png?w=100'' ''https://''"
    by (simp add: startsWith_def)
  have h3: "CHR ''?'' \<in> set ''/img/a.png?w=100''"
    by simp
  have h4: "''T'' \<noteq> []"
    by simp
  have sl: "startsWith ''/img/a.png?w=100'' ''/''"
    by (simp add: startsWith_def)
  from prepareImageUrl_relative_second_question_mark [OF h1 h2 h3 h4, of "''https://api.x''"] sl
  show ?thesis
    by simp
qed


section \<open>Properties of the category form\<close>

lemma serviceCalls_onSubmit:
  "serviceCalls (onSubmit parseInt service routeId active d) =
     [submitCall parseInt routeId active d]"
  by (simp add: onSubmit_def split: service_outcome.split)

lemma payloadOf_submitCall:
  "payloadOf (submitCall parseInt routeId active d) = requestData active d"
  by (simp add: submitCall_def split: option.split)





lemma loadEffect_success:
  assumes "i \<noteq> []" and "fetchCategory (parseInt i) = Some r"
    and "resp_status r = ''SUCCESS''" and "resp_data r = Some c"
  shows "formValues (loadEffect parseInt fetchCategory (Some i) st) =
           \<lparr>form_name = cat_name c, form_description = cat_description c,
            form_parentCategoryId = parentIdOrNull c\<rparr>"
  using assms by (simp add: loadEffect_def isEditMode_def onCategoryFetched_def)

lemma parentCandidates_edit:
  assumes "i \<noteq> []" and "parseInt i = Finite n"
  shows "parentCandidates parseInt (Some i) (Some cats) =
           Some (filter (\<lambda>cat. summary_id cat \<noteq> n) cats)"
  using assms by (simp add: parentCandidates_def isEditMode_def)

lemma parentCandidates_create:
  "\<not> isEditMode routeId \<Longrightarrow> parentCandidates parseInt routeId (Some cats) = Some cats"
  by (simp add: parentCandidates_def)

text \<open>
  C4. When the submitted \<open>parentCategoryId\<close> is \<open>null\<close>, the payload of the one
  request \<open>onSubmit\<close> sends has exactly the keys \<open>name\<close>, \<open>description\<close> and
  \<open>status\<close>: no \<open>parentCategoryId\<close> key, and the status of the active/inactive toggle.
\<close>

theorem onSubmit_omits_null_parent:
  assumes "form_parentCategoryId d = Null"
  shows "serviceCalls (onSubmit parseInt service routeId active d) =
           [submitCall parseInt routeId active d]
         \<and> payloadOf (submitCall parseInt routeId active d) =
             [(''name'', JString (form_name d)),
              (''description'', JString (form_description d)),
              (''status'', JString (if active then ''ACTIVE'' else ''INACTIVE''))]
         \<and> map_of (payloadOf (submitCall parseInt routeId active d)) ''parentCategoryId'' = None"
proof -
  from assms have "requestData active d =
      [(''name'', JString (form_name d)),
       (''description'', JString (form_description d)),
       (''status'', JString (if active then ''ACTIVE'' else ''INACTIVE''))]"
    by (simp add: requestData_def formData_def parentSpread_def)
  then show ?thesis
    by (simp add: serviceCalls_onSubmit payloadOf_submitCall)
qed

theorem onSubmit_omits_null_parent_witness:
  "payloadOf (submitCall parsesFive None False (shoesForm\<lparr>form_parentCategoryId := Null\<rparr>)) =
     [(''name'', JString ''Shoes''), (''description'', JString ''Footwear''),
      (''status'', JString ''INACTIVE'')]"
proof -
  have h: "form_parentCategoryId (shoesForm\<lparr>form_parentCategoryId := Null\<rparr>) = Null"
    by simp
  from onSubmit_omits_null_parent
      [OF h, where parseInt = parsesFive and routeId = None and active = False] show ?thesis
    by simp
qed

text \<open>
  C5, as the code has it. In edit mode, when \<open>parseInt\<close> reads the number \<open>n\<close>
  from the route's id and the category fetched for \<open>n\<close> comes with status
  \<open>SUCCESS\<close>, the form's name and description become the fetched ones and
  \<open>parentCategoryId\<close> becomes the parent's id when the category has a parent whose id is
  not 0, and \<open>null\<close> when it has no parent; the candidates of the parent dropdown are
  the categories whose id is not \<open>n\<close>, in their order. In create mode (no route id, or
  an empty one) every category is a candidate. This holds whatever function
  \<open>parseInt\<close> is.
\<close>

theorem load_populates_form_and_dropdown:
  assumes "i \<noteq> []" and "parseInt i = Finite n"
    and "fetchCategory (Finite n) = Some r"
    and "resp_status r = ''SUCCESS''" and "resp_data r = Some c"
    and "\<forall>p. parentCategory c = Some p \<longrightarrow> cat_id p \<noteq> 0"
  shows "form_name (formValues (loadEffect parseInt fetchCategory (Some i) st)) = cat_name c
         \<and> form_description (formValues (loadEffect parseInt fetchCategory (Some i) st)) = cat_description c
         \<and> form_parentCategoryId (formValues (loadEffect parseInt fetchCategory (Some i) st)) =
             (case parentCategory c of None \<Rightarrow> Null | Some p \<Rightarrow> Number (cat_id p))
         \<and> parentCandidates parseInt (Some i) (Some cats) =
             Some (filter (\<lambda>cat. summary_id cat \<noteq> n) cats)
         \<and> parentCandidates parseInt None (Some cats) = Some cats
         \<and> parentCandidates parseInt (Some []) (Some cats) = Some cats"
proof -
  from assms(6) have "parentIdOrNull c =
      (case parentCategory c of None \<Rightarrow> Null | Some p \<Rightarrow> Number (cat_id p))"
    by (simp add: parentIdOrNull_def split: option.split)
  moreover from assms(1-5)
  have "formValues (loadEffect parseInt fetchCategory (Some i) st) =
           \<lparr>form_name = cat_name c, form_description = cat_description c,
            form_parentCategoryId = parentIdOrNull c\<rparr>"
    by (simp add: loadEffect_success)
  moreover have "parentCandidates parseInt None (Some cats) = Some cats"
    and "parentCandidates parseInt (Some []) (Some cats) = Some cats"
    by (simp_all add: parentCandidates_create isEditMode_def)
  ultimately show ?thesis
    using assms(1,2) by (simp add: parentCandidates_edit)
qed

theorem load_populates_form_and_dropdown_witness:
  "formValues (loadEffect parsesFive (\<lambda>n. Some (succeeded (shoesCategory 2))) (Some ''5'') initialForm)
     = \<lparr>form_name = ''Shoes'', form_description = ''Footwear'',
        form_parentCategoryId = Number 2\<rparr>
   \<and> parentCandidates parsesFive (Some ''5'') (Some threeCategories)
     = Some [\<lparr>summary_id = 2, summary_name = ''Apparel''\<rparr>,
             \<lparr>summary_id = 7, summary_name = ''Hats''\<rparr>]"
proof -
  have h1: "''5'' \<noteq> []"
    by simp
  have h2: "parsesFive ''5'' = Finite 5"
    by simp
  have h3: "(\<lambda>n. Some (succeeded (shoesCategory 2))) (Finite 5)
            = Some (succeeded (shoesCategory 2))"
    by simp
  have h4: "resp_status (succeeded (shoesCategory 2)) = ''SUCCESS''"
    by simp
  have h5: "resp_data (succeeded (shoesCategory 2)) = Some (shoesCategory 2)"
    by simp
  have h6: "\<forall>p. parentCategory (shoesCategory 2) = Some p \<longrightarrow> cat_id p \<noteq> 0"
    by auto
  note w = load_populates_form_and_dropdown
      [where parseInt = parsesFive
         and fetchCategory = "\<lambda>n. Some (succeeded (shoesCategory 2))"
         and st = initialForm and cats = threeCategories,
       OF h1 h2 h3 h4 h5 h6]
  have "formValues (loadEffect parsesFive (\<lambda>n. Some (succeeded (shoesCategory 2))) (Some ''5'') initialForm)
     = \<lparr>form_name = ''Shoes'', form_description = ''Footwear'',
        form_parentCategoryId = Number 2\<rparr>"
    using w by (intro category_form_data.equality) simp_all
  moreover have "parentCandidates parsesFive (Some ''5'') (Some threeCategories)
     = Some [\<lparr>summary_id = 2, summary_name = ''Apparel''\<rparr>,
             \<lparr>summary_id = 7, summary_name = ''Hats''\<rparr>]"
    using w by simp
  ultimately show ?thesis
    by blast
qed

text \<open>
  C5 as stated fails where the parent's id is 0: the category
  \<open>{id: 5, name: "Shoes", parentCategory: {id: 0}}\<close> has a parent, and the form's
  \<open>parentCategoryId\<close> becomes \<open>null\<close>, not the parent's id.
\<close>

theorem load_parent_id_counterexample:
  "parentCategory (shoesCategory 0) = Some (topCategory 0)
   \<and> form_parentCategoryId (formValues
        (loadEffect parsesFive (\<lambda>n. Some (succeeded (shoesCategory 0))) (Some ''5'') initialForm)) = Null
   \<and> form_parentCategoryId (formValues
        (loadEffect parsesFive (\<lambda>n. Some (succeeded (shoesCategory 0))) (Some ''5'') initialForm))
     \<noteq> Number (cat_id (topCategory 0))"
  by (simp add: loadEffect_def isEditMode_def onCategoryFetched_def parentIdOrNull_def)

text \<open>
  C6. When the name or the description is the empty string, the schema reports an error
  for each empty field, under the field's name and with its message; \<open>onSubmit\<close> does
  not run, so nothing is notified and no create or update request is made.
\<close>

theorem handleSubmit_blocks_empty_fields:
  assumes "form_name d = [] \<or> form_description d = []"
  shows "errors (handleSubmit parseInt service routeId active d) \<noteq> []
         \<and> (form_name d = [] \<longrightarrow>
              (''name'', ''Category name is required'')
                \<in> set (errors (handleSubmit parseInt service routeId active d)))
         \<and> (form_description d = [] \<longrightarrow>
              (''description'', ''Description is required'')
                \<in> set (errors (handleSubmit parseInt service routeId active d)))
         \<and> events (handleSubmit parseInt service routeId active d) = []
         \<and> serviceCalls (events (handleSubmit parseInt service routeId active d)) = []"
proof -
  from assms have ne: "schema d \<noteq> []"
    by (auto simp: schema_def)
  then have "handleSubmit parseInt service routeId active d = \<lparr>errors = schema d, events = []\<rparr>"
    by (simp add: handleSubmit_def Let_def)
  with ne show ?thesis
    by (simp add: schema_def)
qed

theorem handleSubmit_blocks_empty_fields_witness:
  "errors (handleSubmit parsesFive (\<lambda>c. Resolved None) None True (shoesForm\<lparr>form_name := []\<rparr>))
     = [(''name'', ''Category name is required'')]
   \<and> events (handleSubmit parsesFive (\<lambda>c. Resolved None) None True (shoesForm\<lparr>form_name := []\<rparr>)) = []"
proof -
  have h: "form_name (shoesForm\<lparr>form_name := []\<rparr>) = []
         \<or> form_description (shoesForm\<lparr>form_name := []\<rparr>) = []"
    by simp
  from handleSubmit_blocks_empty_fields
      [OF h, where parseInt = parsesFive and service = "\<lambda>c. Resolved None"
         and routeId = None and active = True]
  show ?thesis
    by (simp add: handleSubmit_def schema_def)
qed



text \<open>
  C10. In edit mode, when the fetched category has a parent whose id is 0, the form's
  \<open>parentCategoryId\<close> becomes \<open>null\<close>, and the form's values are those the same
  category without a parent gives.
\<close>

theorem load_parent_id_zero_is_null:
  assumes "i \<noteq> []" and "fetchCategory (parseInt i) = Some r"
    and "resp_status r = ''SUCCESS''" and "resp_data r = Some c"
    and "parentCategory c = Some p" and "cat_id p = 0"
  shows "form_parentCategoryId (formValues (loadEffect parseInt fetchCategory (Some i) st)) = Null
         \<and> formValues (loadEffect parseInt fetchCategory (Some i) st) =
             formValues (loadEffect parseInt (\<lambda>n. Some (r\<lparr>resp_data := Some (withParent None c)\<rparr>))
                           (Some i) st)"
proof -
  from assms(5,6) have z: "parentIdOrNull c = Null"
    by (simp add: parentIdOrNull_def)
  have n: "parentIdOrNull (withParent None c) = Null"
    by (simp add: parentIdOrNull_def withParent_def)
  have a: "formValues (loadEffect parseInt fetchCategory (Some i) st) =
           \<lparr>form_name = cat_name c, form_description = cat_description c,
            form_parentCategoryId = parentIdOrNull c\<rparr>"
    using assms(1-4) by (rule loadEffect_success)
  have b: "formValues (loadEffect parseInt (\<lambda>n. Some (r\<lparr>resp_data := Some (withParent None c)\<rparr>))
                           (Some i) st) =
           \<lparr>form_name = cat_name (withParent None c),
            form_description = cat_description (withParent None c),
            form_parentCategoryId = parentIdOrNull (withParent None c)\<rparr>"
    using assms(1,3)
    by (intro loadEffect_success [where r = "r\<lparr>resp_data := Some (withParent None c)\<rparr>"])
      simp_all
  from a b z n show ?thesis
    by (simp add: withParent_def)
qed

theorem load_parent_id_zero_is_null_witness:
  "form_parentCategoryId (formValues
     (loadEffect parsesFive (\<lambda>n. Some (succeeded (shoesCategory 0))) (Some ''5'') initialForm)) = Null"
proof -
  have h1: "''5'' \<noteq> []"
    by simp
  have h2: "(\<lambda>n. Some (succeeded (shoesCategory 0))) (parsesFive ''5'')
            = Some (succeeded (shoesCategory 0))"
    by simp
  have h3: "resp_status (succeeded (shoesCategory 0)) = ''SUCCESS''"
    by simp
  have h4: "resp_data (succeeded (shoesCategory 0)) = Some (shoesCategory 0)"
    by simp
  have h5: "parentCategory (shoesCategory 0) = Some (topCategory 0)"
    by simp
  have h6: "cat_id (topCategory 0) = 0"
    by simp
  from load_parent_id_zero_is_null
      [where parseInt = parsesFive
         and fetchCategory = "\<lambda>n. Some (succeeded (shoesCategory 0))"
         and st = initialForm,
       OF h1 h2 h3 h4 h5 h6] show ?thesis
    by (rule conjunct1)
qed

end
